theory Spec2Isabelle
  imports Main
begin

section \<open>MediTrack: keyword safety filter and conversation manager\<close>

text \<open>
  A shallow embedding of \<^verbatim>\<open>src/agent.py\<close> (class \<^verbatim>\<open>MediTrackAgent\<close>) and of the
  conversation handler of \<^verbatim>\<open>src/app.py\<close> (\<^verbatim>\<open>handle_chat_input\<close> and the script
  around it).

  Conventions of the model:
  \<^item> A Python \<^verbatim>\<open>str\<close> is a \<open>string\<close>. \<^verbatim>\<open>str.lower()\<close> is modelled on the ASCII
    letters; every other character is left as it is.
  \<^item> A Python \<^verbatim>\<open>dict\<close> is an association list in insertion order.
  \<^item> \<^verbatim>\<open>st.session_state\<close> and the agent instance are one record. The agent's
    \<^verbatim>\<open>log_data\<close> and \<^verbatim>\<open>symptoms_to_query\<close> are the very objects stored in the session
    (\<^verbatim>\<open>__init__\<close> aliases them, \<^verbatim>\<open>log_initial_symptoms\<close> stores the new queue in both
    places, every other update is in place), so each is one field here.
    \<^verbatim>\<open>current_question_context\<close> is a field of the agent instance only.
  \<^item> The language model is a parameter: the outcome of \<^verbatim>\<open>generate_content\<close> may depend
    on the prompt and on all prompts sent before. The prompts sent are recorded in the
    field \<open>prompts_sent\<close>, which the program does not have; it makes "no call was made"
    a statement about the state.
  \<^item> What is shown on screen (\<^verbatim>\<open>st.markdown\<close>, \<^verbatim>\<open>st.error\<close>, \<^verbatim>\<open>st.info\<close>,
    \<^verbatim>\<open>st.success\<close>) is what is appended to \<^verbatim>\<open>st.session_state.messages\<close> in the same
    branch; the model keeps the message list.
\<close>

subsection \<open>Strings\<close>

definition upper_letters :: string where
  "upper_letters = ''ABCDEFGHIJKLMNOPQRSTUVWXYZ''"

definition lower_letters :: string where
  "lower_letters = ''abcdefghijklmnopqrstuvwxyz''"

definition lower_char :: "char \<Rightarrow> char" where
  "lower_char c = (case map_of (zip upper_letters lower_letters) c of Some d \<Rightarrow> d | None \<Rightarrow> c)"

text \<open>\<^verbatim>\<open>text.lower()\<close>\<close>

definition lower :: "string \<Rightarrow> string" where
  "lower text = map lower_char text"

text \<open>\<^verbatim>\<open>hay.startswith(needle)\<close> and \<^verbatim>\<open>needle in hay\<close> on strings.\<close>

fun startswith :: "string \<Rightarrow> string \<Rightarrow> bool" where
  "startswith hay [] = True"
| "startswith [] (c # needle) = False"
| "startswith (h # hay) (c # needle) = (h = c \<and> startswith hay needle)"

fun str_in :: "string \<Rightarrow> string \<Rightarrow> bool" where
  "str_in needle [] = (needle = [])"
| "str_in needle (h # hay) = (startswith (h # hay) needle \<or> str_in needle hay)"

definition newline :: string where
  "newline = [CHR 0x0A]"

subsection \<open>The rule tables\<close>

text \<open>
  \<^verbatim>\<open>CRITICAL_SYMPTOMS\<close> is a Python set; it is only ever used under \<^verbatim>\<open>any\<close>, whose
  result does not depend on the order of iteration. \<^verbatim>\<open>SYMPTOM_QUESTIONS\<close> is a dict,
  iterated in the order written.
\<close>

definition CRITICAL_SYMPTOMS :: "string list" where
  "CRITICAL_SYMPTOMS =
    [''chest pain'', ''difficulty breathing'', ''trouble breathing'', ''can't breathe'',
     ''severe pain'', ''slurred speech'', ''numbness'', ''face drooping'',
     ''unconscious'', ''loss of consciousness'', ''severe bleeding'', ''uncontrolled bleeding'']"

definition SYMPTOM_QUESTIONS :: "(string \<times> string list) list" where
  "SYMPTOM_QUESTIONS =
    [(''headache'', [''On a scale of 1 to 10, how severe is it?'', ''Where is the pain located?'']),
     (''fever'', [''Have you measured your temperature? If so, what is it?'',
                  ''How long have you felt feverish?'']),
     (''cough'', [''Is it a dry cough, or are you coughing anything up?'',
                  ''How frequently are you coughing?''])]"

definition symptom_keys :: "string list" where
  "symptom_keys = map fst SYMPTOM_QUESTIONS"

text \<open>
  \<^verbatim>\<open>self.SYMPTOM_QUESTIONS[s]\<close>. The program only evaluates it for a key of the dict
  (see \<open>detect_keys\<close> below), so the \<^verbatim>\<open>KeyError\<close> of a missing key does not arise; the
  model returns no questions there.
\<close>

definition questions_for :: "string \<Rightarrow> string list" where
  "questions_for s = (case map_of SYMPTOM_QUESTIONS s of Some qs \<Rightarrow> qs | None \<Rightarrow> [])"

subsection \<open>Session data\<close>

record qa =
  question :: string
  answer :: string

record log_data =
  initial_symptoms :: "string list"
  details :: "(string \<times> qa list) list"

datatype stage = Greeting | CollectingDetails | Summary | Done

datatype role = User | Assistant

record message =
  role :: role
  content :: string

record state =
  log_data :: log_data
  symptoms_to_query :: "(string \<times> string) list"
  current_question_context :: "(string \<times> string) option"
  stage :: stage
  messages :: "message list"
  user_input :: "string option"
  prompts_sent :: "string list"

text \<open>Assignment to a dict entry: an existing key keeps its place, a new key goes last.\<close>

fun dict_set :: "'k \<Rightarrow> 'v \<Rightarrow> ('k \<times> 'v) list \<Rightarrow> ('k \<times> 'v) list" where
  "dict_set k v [] = [(k, v)]"
| "dict_set k v (p # ps) = (if fst p = k then (k, v) # ps else p # dict_set k v ps)"

subsection \<open>The language model\<close>

text \<open>
  \<^verbatim>\<open>self.model.generate_content(prompt)\<close> either raises an \<^verbatim>\<open>Exception\<close> or returns a
  response object, which has a \<^verbatim>\<open>text\<close> attribute or not. An exception raised while
  the attribute is read is raised inside the same \<^verbatim>\<open>try\<close> and is the case \<open>Raises\<close>.
  Python's \<^verbatim>\<open>str()\<close> of the log and of the symptom list, which the f-strings of the two
  prompts call, are parameters as well.
\<close>

datatype response = NoTextAttr | HasText string

datatype outcome = Raises | Returns response

record env =
  generate_content :: "string list \<Rightarrow> string \<Rightarrow> outcome"
  str_of_log :: "log_data \<Rightarrow> string"
  str_of_list :: "string list \<Rightarrow> string"

subsection \<open>class MediTrackAgent\<close>

definition check_for_critical_symptoms :: "string \<Rightarrow> bool" where
  "check_for_critical_symptoms text = list_ex (\<lambda>keyword. str_in keyword (lower text)) CRITICAL_SYMPTOMS"

definition get_critical_symptom_response :: string where
  "get_critical_symptom_response =
     ''**This sounds potentially serious.** Based on your description, '' @
     ''it is highly recommended that you **contact a medical professional or emergency services immediately.** '' @
     ''This chat will now end to ensure your safety.''"

definition detect_keys :: "string \<Rightarrow> string list" where
  "detect_keys text = filter (\<lambda>s. str_in s (lower text)) symptom_keys"

definition build_queue :: "string list \<Rightarrow> (string \<times> string) list" where
  "build_queue detected = concat (map (\<lambda>s. map (\<lambda>q. (s, q)) (questions_for s)) detected)"

definition log_initial_symptoms :: "state \<Rightarrow> string \<Rightarrow> state" where
  "log_initial_symptoms s text =
     (let detected = detect_keys text
      in s\<lparr>log_data := (log_data s)\<lparr>initial_symptoms := detected\<rparr>,
           symptoms_to_query := build_queue detected\<rparr>)"

definition ask_next_question :: "state \<Rightarrow> string option \<times> state" where
  "ask_next_question s =
     (case symptoms_to_query s of
        [] \<Rightarrow> (None, s)
      | (symptom, qn) # rest \<Rightarrow>
          (Some qn,
           s\<lparr>symptoms_to_query := rest, current_question_context := Some (symptom, qn)\<rparr>))"

definition log_detail :: "state \<Rightarrow> string \<Rightarrow> state" where
  "log_detail s ans =
     (case current_question_context s of
        None \<Rightarrow> s
      | Some (symptom, qn) \<Rightarrow>
          (let d = details (log_data s);
               old = (case map_of d symptom of None \<Rightarrow> [] | Some l \<Rightarrow> l);
               d' = dict_set symptom (old @ [\<lparr>question = qn, answer = ans\<rparr>]) d
           in s\<lparr>log_data := (log_data s)\<lparr>details := d'\<rparr>\<rparr>))"

definition fallback_no_text :: string where
  "fallback_no_text = ''The model could not generate a response for this query.''"

definition fallback_error :: string where
  "fallback_error = ''An error occurred while trying to generate a response.''"

text \<open>\<^verbatim>\<open>_call_gemini\<close>\<close>

definition call_gemini :: "env \<Rightarrow> state \<Rightarrow> string \<Rightarrow> string \<times> state" where
  "call_gemini e s prompt =
     (let s' = s\<lparr>prompts_sent := prompts_sent s @ [prompt]\<rparr>
      in case generate_content e (prompts_sent s) prompt of
           Returns (HasText t) \<Rightarrow> (t, s')
         | Returns NoTextAttr \<Rightarrow> (fallback_no_text, s')
         | Raises \<Rightarrow> (fallback_error, s'))"

definition indent :: string where
  "indent = ''        ''"

definition summary_prompt :: "env \<Rightarrow> log_data \<Rightarrow> string" where
  "summary_prompt e l =
     newline @
     indent @ ''Please summarize the following health log in a clean, easy-to-read markdown format.'' @ newline @
     indent @ ''Use bullet points. Do not add any information not present in the log.'' @ newline @
     indent @ ''Absolutely do not provide a medical diagnosis or any form of medical opinion.'' @ newline @
     newline @
     indent @ ''Health Log Data:'' @ newline @
     indent @ str_of_log e l @ newline @
     indent"

definition advice_prompt :: "env \<Rightarrow> log_data \<Rightarrow> string" where
  "advice_prompt e l =
     newline @
     indent @ ''Based on the following symptoms, provide some general, safe, non-prescriptive wellness advice.'' @ newline @
     indent @ ''Focus only on common sense actions like rest, hydration, and monitoring symptoms.'' @ newline @
     indent @ ''Explicitly state that this is not medical advice and a doctor should be consulted for medical issues.'' @ newline @
     indent @ ''NEVER provide a diagnosis or recommend specific medication.'' @ newline @
     newline @
     indent @ ''Symptoms: '' @ str_of_list e (initial_symptoms l) @ newline @
     indent"

definition generate_summary :: "env \<Rightarrow> state \<Rightarrow> string \<times> state" where
  "generate_summary e s = call_gemini e s (summary_prompt e (log_data s))"

definition generate_advice :: "env \<Rightarrow> state \<Rightarrow> string \<times> state" where
  "generate_advice e s = call_gemini e s (advice_prompt e (log_data s))"

subsection \<open>app.py\<close>

definition clarification_prompt :: string where
  "clarification_prompt =
     ''I see. Could you please tell me more? Mention specific symptoms like 'headache', 'fever', etc., so I can ask relevant follow-up questions.''"

definition summary_header :: string where
  "summary_header = ''### Your Health Log Summary''"

definition advice_header :: string where
  "advice_header = ''### General Wellness Advice''"

definition closing_message :: string where
  "closing_message =
     ''Your session is complete. You can copy the summary above for your records. Stay well!''"

definition concluded_message :: string where
  "concluded_message =
     ''This session has concluded. To start a new health log, please click the button below.''"

definition greeting_message :: string where
  "greeting_message =
     ''Hi! I'm MediTrack AI. Let's log your health symptoms. How are you feeling today?''"

text \<open>\<^verbatim>\<open>st.session_state.messages.append({"role": "assistant", "content": c})\<close>\<close>

definition say :: "string \<Rightarrow> state \<Rightarrow> state" where
  "say c s = s\<lparr>messages := messages s @ [\<lparr>role = Assistant, content = c\<rparr>]\<rparr>"

text \<open>\<^verbatim>\<open>not response\<close> for a value that is \<^verbatim>\<open>None\<close> or a string.\<close>

definition falsy :: "string option \<Rightarrow> bool" where
  "falsy r = (case r of None \<Rightarrow> True | Some t \<Rightarrow> t = [])"

text \<open>The last lines of the handler: \<^verbatim>\<open>if response: ... append\<close>.\<close>

definition respond :: "string \<Rightarrow> state \<Rightarrow> state" where
  "respond r s = (if r = [] then s else say r s)"

definition finish_session :: "env \<Rightarrow> state \<Rightarrow> state" where
  "finish_session e s2 =
     (let s3 = s2\<lparr>stage := Summary\<rparr>;
          (summary, s4) = generate_summary e s3;
          (advice, s5) = generate_advice e s4;
          s6 = say (summary_header @ newline @ summary) s5;
          s7 = say (advice_header @ newline @ advice) s6
      in respond closing_message (s7\<lparr>stage := Done\<rparr>))"

definition handle_chat_input :: "env \<Rightarrow> state \<Rightarrow> state" where
  "handle_chat_input e s =
     (case user_input s of
        None \<Rightarrow> s
      | Some text \<Rightarrow>
          if text = [] then s
          else if check_for_critical_symptoms text
          then (say get_critical_symptom_response s)\<lparr>stage := Done\<rparr>
          else (case stage s of
                  Greeting \<Rightarrow>
                    (let (response, s2) = ask_next_question (log_initial_symptoms s text)
                     in if falsy response then respond clarification_prompt s2
                        else respond (the response) (s2\<lparr>stage := CollectingDetails\<rparr>))
                | CollectingDetails \<Rightarrow>
                    (let (response, s2) = ask_next_question (log_detail s text)
                     in if falsy response then finish_session e s2
                        else respond (the response) s2)
                | Done \<Rightarrow> respond concluded_message s
                | Summary \<Rightarrow> respond [] s))"

text \<open>
  The script. Streamlit runs \<^verbatim>\<open>app.py\<close> from its first line on every interaction of
  the user; only \<^verbatim>\<open>st.session_state\<close> lasts from one run to the next, which is why the
  script creates \<^verbatim>\<open>messages\<close>, \<^verbatim>\<open>stage\<close>, \<^verbatim>\<open>log_data\<close> and \<^verbatim>\<open>symptoms_to_query\<close>
  only when they are not there yet. Line 24, \<^verbatim>\<open>agent = MediTrackAgent()\<close>, is run every
  time: \<^verbatim>\<open>__init__\<close> takes the log and the queue from the session and sets
  \<^verbatim>\<open>self.current_question_context = None\<close>.
\<close>

definition new_agent :: "state \<Rightarrow> state" where
  "new_agent s = s\<lparr>current_question_context := None\<rparr>"

text \<open>The state after the first run of the script in a fresh session.\<close>

definition first_run :: state where
  "first_run =
     \<lparr>log_data = \<lparr>initial_symptoms = [], details = []\<rparr>,
      symptoms_to_query = [],
      current_question_context = None,
      stage = Greeting,
      messages = [\<lparr>role = Assistant, content = greeting_message\<rparr>],
      user_input = None,
      prompts_sent = []\<rparr>"

text \<open>
  One run of the script in which the chat field delivers \<open>prompt\<close>. The field exists
  only while the stage is not \<^verbatim>\<open>"done"\<close>, and \<^verbatim>\<open>if prompt := st.chat_input(...)\<close> lets
  only a non-empty text through.
\<close>

definition script_run :: "env \<Rightarrow> state \<Rightarrow> string \<Rightarrow> state" where
  "script_run e s prompt =
     (let a = new_agent s
      in if stage a \<noteq> Done \<and> prompt \<noteq> []
         then handle_chat_input e
                (a\<lparr>user_input := Some prompt,
                   messages := messages a @ [\<lparr>role = User, content = prompt\<rparr>]\<rparr>)
         else a)"

definition session_run :: "env \<Rightarrow> state \<Rightarrow> string list \<Rightarrow> state" where
  "session_run e s prompts = foldl (script_run e) s prompts"

text \<open>The handler alone, called once for each text of a list, on one agent instance.\<close>

definition handle_inputs :: "env \<Rightarrow> state \<Rightarrow> string list \<Rightarrow> state" where
  "handle_inputs e s texts = foldl (\<lambda>s t. handle_chat_input e (s\<lparr>user_input := Some t\<rparr>)) s texts"

text \<open>A language model that never answers, for the examples.\<close>

definition failing_env :: env where
  "failing_env =
     \<lparr>generate_content = (\<lambda>h p. if h = [] then Raises else Returns NoTextAttr),
      str_of_log = (\<lambda>l. concat (initial_symptoms l)),
      str_of_list = concat\<rparr>"

text \<open>The session after the greeting "I have a headache": the first question is pending.\<close>

definition asking_state :: state where
  "asking_state = script_run failing_env first_run ''I have a headache''"

text \<open>A greeting-stage state whose record still holds a symptom of an earlier text.\<close>

definition stale_state :: state where
  "stale_state =
     first_run\<lparr>log_data := \<lparr>initial_symptoms = [''cough''], details = []\<rparr>,
               symptoms_to_query := [(''cough'', ''How frequently are you coughing?'')],
               user_input := Some ''I feel unwell''\<rparr>"

text \<open>An agent that has just asked its second question about the headache.\<close>

definition pending_state :: state where
  "pending_state =
     first_run\<lparr>log_data := \<lparr>initial_symptoms = [''headache''],
                              details = [(''headache'', [\<lparr>question = ''On a scale of 1 to 10, how severe is it?'', answer = ''7''\<rparr>])]\<rparr>,
               current_question_context := Some (''headache'', ''Where is the pain located?''),
               stage := CollectingDetails\<rparr>"

text \<open>The session after the answer to the last question has been asked for.\<close>

definition answering_state :: state where
  "answering_state =
     (session_run failing_env first_run [''I have a headache'', ''7''])\<lparr>user_input := Some ''Behind my left eye''\<rparr>"


text \<open>The agent of \<open>pending_state\<close> with another answer to the first question.\<close>

definition other_answer_state :: state where
  "other_answer_state =
     pending_state\<lparr>log_data := \<lparr>initial_symptoms = [''headache''],
       details = [(''headache'', [\<lparr>question = ''On a scale of 1 to 10, how severe is it?'', answer = ''2''\<rparr>])]\<rparr>\<rparr>"


text \<open>As \<open>answering_state\<close>, with an answer that names a critical symptom.\<close>

definition critical_answer_state :: state where
  "critical_answer_state =
     answering_state\<lparr>user_input := Some ''a severe pain behind my left eye''\<rparr>"

section \<open>Substring search\<close>

lemma startswith_iff: "startswith hay needle \<longleftrightarrow> (\<exists>ss. hay = needle @ ss)"
  by (induction hay needle rule: startswith.induct) auto

lemma str_in_iff: "str_in needle hay \<longleftrightarrow> (\<exists>ps ss. hay = ps @ needle @ ss)"
proof (induction hay)
  case Nil
  then show ?case by auto
next
  case (Cons h hay)
  show ?case
  proof
    assume "str_in needle (h # hay)"
    then consider "startswith (h # hay) needle" | "str_in needle hay" by auto
    then show "\<exists>ps ss. h # hay = ps @ needle @ ss"
    proof cases
      case 1
      then obtain ss where "h # hay = needle @ ss" by (auto simp: startswith_iff)
      then have "h # hay = [] @ needle @ ss" by simp
      then show ?thesis by blast
    next
      case 2
      then obtain ps ss where "hay = ps @ needle @ ss" using Cons.IH by auto
      then have "h # hay = (h # ps) @ needle @ ss" by simp
      then show ?thesis by blast
    qed
  next
    assume "\<exists>ps ss. h # hay = ps @ needle @ ss"
    then obtain ps ss where eq: "h # hay = ps @ needle @ ss" by blast
    show "str_in needle (h # hay)"
    proof (cases ps)
      case Nil
      with eq have "startswith (h # hay) needle" by (auto simp: startswith_iff)
      then show ?thesis by simp
    next
      case (Cons p ps')
      with eq have "hay = ps' @ needle @ ss" by simp
      then have "str_in needle hay" using Cons.IH by blast
      then show ?thesis by simp
    qed
  qed
qed

lemma lower_append: "lower (a @ b) = lower a @ lower b"
  by (simp add: lower_def)

lemma lower_contains_iff:
  "(\<exists>ps ss. lower text = ps @ k @ ss) \<longleftrightarrow> (\<exists>ps v ss. text = ps @ v @ ss \<and> lower v = k)"
proof
  assume "\<exists>ps ss. lower text = ps @ k @ ss"
  then obtain ps ss where eq: "map lower_char text = ps @ k @ ss"
    by (auto simp: lower_def)
  then obtain us r where 1: "text = us @ r" and 2: "k @ ss = map lower_char r"
    by (auto simp: map_eq_append_conv)
  from 2 obtain v ws where 3: "r = v @ ws" and 4: "k = map lower_char v"
    by (auto simp: append_eq_map_conv)
  from 1 3 4 have "text = us @ v @ ws \<and> lower v = k" by (simp add: lower_def)
  then show "\<exists>ps v ss. text = ps @ v @ ss \<and> lower v = k" by blast
next
  assume "\<exists>ps v ss. text = ps @ v @ ss \<and> lower v = k"
  then obtain ps v ss where "text = ps @ v @ ss" and "lower v = k" by blast
  then have "lower text = lower ps @ k @ lower ss" by (simp add: lower_append)
  then show "\<exists>ps ss. lower text = ps @ k @ ss" by blast
qed

section \<open>The safety filter\<close>

text \<open>
  Claim C1. \<open>check_for_critical_symptoms\<close> is true exactly when the lower-cased text
  contains a member of \<open>CRITICAL_SYMPTOMS\<close> as a substring; equivalently, exactly when
  the text itself contains some spelling \<open>v\<close> of a member, in any letter case
  (\<open>lower v\<close> is the member). So it is true for a text that contains a member in any
  case and false for a text that contains none.
\<close>

theorem check_for_critical_symptoms_iff:
  "(check_for_critical_symptoms text \<longleftrightarrow>
      (\<exists>k \<in> set CRITICAL_SYMPTOMS. \<exists>ps ss. lower text = ps @ k @ ss)) \<and>
   (check_for_critical_symptoms text \<longleftrightarrow>
      (\<exists>k \<in> set CRITICAL_SYMPTOMS. \<exists>ps v ss. text = ps @ v @ ss \<and> lower v = k))"
  unfolding lower_contains_iff [symmetric]
  by (simp add: check_for_critical_symptoms_def list_ex_iff str_in_iff)

theorem check_for_critical_symptoms_iff_witness:
  "check_for_critical_symptoms ''My CHEST Pain is back'' \<and>
   \<not> check_for_critical_symptoms ''I have a headache''"
proof -
  have k: "''chest pain'' \<in> set CRITICAL_SYMPTOMS"
    by (simp add: CRITICAL_SYMPTOMS_def)
  have v: "''My CHEST Pain is back'' = ''My '' @ ''CHEST Pain'' @ '' is back'' \<and> lower ''CHEST Pain'' = ''chest pain''"
    by code_simp
  have "\<exists>k \<in> set CRITICAL_SYMPTOMS. \<exists>ps v ss. ''My CHEST Pain is back'' = ps @ v @ ss \<and> lower v = k"
    using k v by blast
  then have 1: "check_for_critical_symptoms ''My CHEST Pain is back''"
    using check_for_critical_symptoms_iff [of "''My CHEST Pain is back''"] by blast
  have "\<not> (\<exists>k \<in> set CRITICAL_SYMPTOMS. \<exists>ps ss. lower ''I have a headache'' = ps @ k @ ss)"
    unfolding str_in_iff [symmetric] by code_simp
  then have 2: "\<not> check_for_critical_symptoms ''I have a headache''"
    using check_for_critical_symptoms_iff [of "''I have a headache''"] by blast
  from 1 2 show ?thesis by blast
qed

lemma no_empty_keyword: "\<not> check_for_critical_symptoms []"
  by code_simp

lemma handle_chat_input_critical:
  assumes "user_input s = Some text" and "check_for_critical_symptoms text"
  shows "handle_chat_input e s = (say get_critical_symptom_response s)\<lparr>stage := Done\<rparr>"
proof -
  from assms(2) have "text \<noteq> []" using no_empty_keyword by auto
  with assms show ?thesis by (simp add: handle_chat_input_def)
qed

lemma stage_say [simp]: "stage (say c s) = stage s"
  by (simp add: say_def)

lemma stage_respond [simp]: "stage (respond r s) = stage s"
  by (simp add: respond_def)

lemma handle_chat_input_done:
  "stage s = Done \<Longrightarrow> stage (handle_chat_input e s) = Done"
  by (simp add: handle_chat_input_def split: option.splits)

lemma script_run_done: "stage s = Done \<Longrightarrow> stage (script_run e s prompt) = Done"
  by (simp add: script_run_def new_agent_def)

lemma session_run_done: "stage s = Done \<Longrightarrow> stage (session_run e s prompts) = Done"
  unfolding session_run_def
  by (induction prompts arbitrary: s) (simp_all add: script_run_done)

lemma handle_inputs_done: "stage s = Done \<Longrightarrow> stage (handle_inputs e s texts) = Done"
  unfolding handle_inputs_def
  by (induction texts arbitrary: s) (simp_all add: handle_chat_input_done)

text \<open>
  Claim C2. If the text of a turn triggers the safety filter then, in every stage, the
  handler changes the state in two places only: the fixed escalation message is appended
  to the messages and the stage is \<open>Done\<close>. The log, the question queue, the pending
  question context and the prompts sent to the language model are as before, so no
  symptom is detected, no detail is logged and the advisor is not called. From then on
  the stage stays \<open>Done\<close>, however many more texts the handler is given and however
  many more times the script runs.
\<close>

theorem critical_input_escalates:
  assumes "user_input s = Some text" and "check_for_critical_symptoms text"
  shows "handle_chat_input e s =
           s\<lparr>messages := messages s @ [\<lparr>role = Assistant, content = get_critical_symptom_response\<rparr>],
             stage := Done\<rparr> \<and>
         (\<forall>texts. stage (handle_inputs e (handle_chat_input e s) texts) = Done) \<and>
         (\<forall>prompts. stage (session_run e (handle_chat_input e s) prompts) = Done)"
proof -
  have eq: "handle_chat_input e s = (say get_critical_symptom_response s)\<lparr>stage := Done\<rparr>"
    using assms by (rule handle_chat_input_critical)
  then have "stage (handle_chat_input e s) = Done" by simp
  then show ?thesis
    using eq by (simp add: say_def handle_inputs_done session_run_done)
qed

theorem critical_input_escalates_witness:
  "user_input (asking_state\<lparr>user_input := Some ''now I have Chest Pain''\<rparr>) = Some ''now I have Chest Pain'' \<and>
   check_for_critical_symptoms ''now I have Chest Pain'' \<and>
   stage asking_state = CollectingDetails \<and>
   handle_chat_input failing_env (asking_state\<lparr>user_input := Some ''now I have Chest Pain''\<rparr>) =
     asking_state\<lparr>user_input := Some ''now I have Chest Pain'',
       messages := messages asking_state @ [\<lparr>role = Assistant, content = get_critical_symptom_response\<rparr>],
       stage := Done\<rparr> \<and>
   stage (session_run failing_env
     (handle_chat_input failing_env (asking_state\<lparr>user_input := Some ''now I have Chest Pain''\<rparr>))
     [''and a fever'']) = Done"
proof -
  have 1: "user_input (asking_state\<lparr>user_input := Some ''now I have Chest Pain''\<rparr>) = Some ''now I have Chest Pain''"
    by simp
  have 2: "check_for_critical_symptoms ''now I have Chest Pain''"
    by code_simp
  have 3: "stage asking_state = CollectingDetails"
    by code_simp
  note r = critical_input_escalates [OF 1 2, of failing_env]
  from r have 4: "handle_chat_input failing_env (asking_state\<lparr>user_input := Some ''now I have Chest Pain''\<rparr>) =
     asking_state\<lparr>user_input := Some ''now I have Chest Pain'',
       messages := messages asking_state @ [\<lparr>role = Assistant, content = get_critical_symptom_response\<rparr>],
       stage := Done\<rparr>"
    by simp
  from r have 5: "stage (session_run failing_env
     (handle_chat_input failing_env (asking_state\<lparr>user_input := Some ''now I have Chest Pain''\<rparr>))
     [''and a fever'']) = Done"
    by blast
  from 1 2 3 4 5 show ?thesis by blast
qed

section \<open>Symptom detection\<close>

lemma distinct_symptom_keys: "distinct symptom_keys"
  by (simp add: symptom_keys_def SYMPTOM_QUESTIONS_def)

lemma lower_symptom_key: "k \<in> set symptom_keys \<Longrightarrow> lower k = k"
  by (auto simp: symptom_keys_def SYMPTOM_QUESTIONS_def lower_def lower_char_def
      upper_letters_def lower_letters_def)

lemma detect_keys_eq:
  "detect_keys text = filter (\<lambda>k. \<exists>ps ss. lower text = ps @ lower k @ ss) symptom_keys"
  unfolding detect_keys_def
  by (rule filter_cong) (simp_all add: str_in_iff lower_symptom_key)

lemma flatten_lookup:
  assumes "\<forall>p \<in> set al. m (fst p) = Some (snd p)"
  shows "concat (map (\<lambda>s. map (\<lambda>q. (s, q)) (case m s of Some qs \<Rightarrow> qs | None \<Rightarrow> []))
           (filter P (map fst al))) =
         concat (map (\<lambda>(k, qs). map (\<lambda>q. (k, q)) qs) (filter (\<lambda>(k, qs). P k) al))"
  using assms by (induction al) (auto split: prod.splits)

lemma catalog_lookup: "\<forall>p \<in> set SYMPTOM_QUESTIONS. map_of SYMPTOM_QUESTIONS (fst p) = Some (snd p)"
  by (simp add: SYMPTOM_QUESTIONS_def)

lemma build_queue_detect:
  "build_queue (detect_keys text) =
     concat (map (\<lambda>(k, qs). map (\<lambda>q. (k, q)) qs)
       (filter (\<lambda>(k, qs). k \<in> set (detect_keys text)) SYMPTOM_QUESTIONS))"
proof -
  have "build_queue (detect_keys text) =
     concat (map (\<lambda>(k, qs). map (\<lambda>q. (k, q)) qs)
       (filter (\<lambda>(k, qs). str_in k (lower text)) SYMPTOM_QUESTIONS))"
    unfolding build_queue_def detect_keys_def symptom_keys_def questions_for_def
    using catalog_lookup by (rule flatten_lookup)
  moreover have "filter (\<lambda>(k, qs). str_in k (lower text)) SYMPTOM_QUESTIONS =
      filter (\<lambda>(k, qs). k \<in> set (detect_keys text)) SYMPTOM_QUESTIONS"
    by (rule filter_cong) (force simp: detect_keys_def symptom_keys_def)+
  ultimately show ?thesis by simp
qed

lemma log_initial_symptoms_fields:
  "initial_symptoms (log_data (log_initial_symptoms s text)) = detect_keys text"
  "symptoms_to_query (log_initial_symptoms s text) = build_queue (detect_keys text)"
  by (simp_all add: log_initial_symptoms_def Let_def)

text \<open>
  Claim C4. After \<open>log_initial_symptoms\<close>, \<open>initial_symptoms\<close> is the list of the catalog
  keys whose lower-cased form is a substring of the lower-cased text, in the order of the
  catalog; no key is in it twice, however often the text mentions it. The question queue
  is the flattening of the catalog entries of the detected keys, entries in catalog order
  and each entry's questions in the order declared. "I have a headache and a fever" gives
  the symptoms headache and fever and a queue of four questions.
\<close>

theorem log_initial_symptoms_detects:
  "initial_symptoms (log_data (log_initial_symptoms s text)) =
     filter (\<lambda>k. \<exists>ps ss. lower text = ps @ lower k @ ss) symptom_keys \<and>
   distinct (initial_symptoms (log_data (log_initial_symptoms s text))) \<and>
   symptoms_to_query (log_initial_symptoms s text) =
     concat (map (\<lambda>(k, qs). map (\<lambda>q. (k, q)) qs)
       (filter (\<lambda>(k, qs). k \<in> set (initial_symptoms (log_data (log_initial_symptoms s text))))
          SYMPTOM_QUESTIONS)) \<and>
   initial_symptoms (log_data (log_initial_symptoms s ''I have a headache and a fever'')) =
     [''headache'', ''fever''] \<and>
   length (symptoms_to_query (log_initial_symptoms s ''I have a headache and a fever'')) = 4 \<and>
   initial_symptoms (log_data (log_initial_symptoms s ''Fever, fever and more FEVER'')) = [''fever'']"
proof -
  have 1: "detect_keys ''I have a headache and a fever'' = [''headache'', ''fever'']"
    by code_simp
  have 2: "length (build_queue (detect_keys ''I have a headache and a fever'')) = 4"
    by code_simp
  have 3: "detect_keys ''Fever, fever and more FEVER'' = [''fever'']"
    by code_simp
  have 4: "distinct (detect_keys text)"
    by (simp add: detect_keys_def distinct_symptom_keys)
  show ?thesis
    using 1 2 3 4 detect_keys_eq [of "text"] build_queue_detect [of "text"]
    by (simp add: log_initial_symptoms_fields)
qed

lemma detect_keys_none:
  assumes "\<forall>k \<in> set symptom_keys. \<not> (\<exists>ps ss. lower text = ps @ k @ ss)"
  shows "detect_keys text = []"
  using assms by (simp add: detect_keys_def str_in_iff)

lemma critical_iff_substring:
  "check_for_critical_symptoms text \<longleftrightarrow>
     (\<exists>k \<in> set CRITICAL_SYMPTOMS. \<exists>ps ss. lower text = ps @ k @ ss)"
  by (simp add: check_for_critical_symptoms_def list_ex_iff str_in_iff)

lemma handle_chat_input_clarify:
  assumes "stage s = Greeting" and "user_input s = Some text" and "text \<noteq> []"
    and "\<not> check_for_critical_symptoms text" and "detect_keys text = []"
  shows "handle_chat_input e s =
           s\<lparr>log_data := (log_data s)\<lparr>initial_symptoms := []\<rparr>,
             symptoms_to_query := [],
             messages := messages s @ [\<lparr>role = Assistant, content = clarification_prompt\<rparr>]\<rparr>"
proof -
  have "clarification_prompt \<noteq> []" by (simp add: clarification_prompt_def)
  then show ?thesis
    using assms
    by (simp add: handle_chat_input_def log_initial_symptoms_def build_queue_def
        ask_next_question_def falsy_def respond_def say_def)
qed

text \<open>
  Claim C8. A greeting-stage turn whose text contains no critical keyword and no catalog
  key leaves the stage at \<open>Greeting\<close> and the question queue empty, and its one response
  is the clarification prompt. A turn has a non-empty text: the chat field of the script
  passes nothing else on, and the handler returns at once on an empty one.
\<close>

theorem greeting_without_symptom_asks_again:
  assumes "stage s = Greeting" and "user_input s = Some text" and "text \<noteq> []"
    and "\<forall>k \<in> set CRITICAL_SYMPTOMS. \<not> (\<exists>ps ss. lower text = ps @ k @ ss)"
    and "\<forall>k \<in> set symptom_keys. \<not> (\<exists>ps ss. lower text = ps @ k @ ss)"
  shows "stage (handle_chat_input e s) = Greeting \<and>
         symptoms_to_query (handle_chat_input e s) = [] \<and>
         messages (handle_chat_input e s) =
           messages s @ [\<lparr>role = Assistant, content = clarification_prompt\<rparr>] \<and>
         prompts_sent (handle_chat_input e s) = prompts_sent s"
proof -
  from assms(4) have "\<not> check_for_critical_symptoms text"
    by (simp add: critical_iff_substring)
  moreover from assms(5) have "detect_keys text = []" by (rule detect_keys_none)
  ultimately have "handle_chat_input e s =
           s\<lparr>log_data := (log_data s)\<lparr>initial_symptoms := []\<rparr>,
             symptoms_to_query := [],
             messages := messages s @ [\<lparr>role = Assistant, content = clarification_prompt\<rparr>]\<rparr>"
    using assms(1-3) by (simp add: handle_chat_input_clarify)
  then show ?thesis using assms(1) by simp
qed

theorem greeting_without_symptom_asks_again_witness:
  "stage (first_run\<lparr>user_input := Some ''I feel unwell''\<rparr>) = Greeting \<and>
   user_input (first_run\<lparr>user_input := Some ''I feel unwell''\<rparr>) = Some ''I feel unwell'' \<and>
   ''I feel unwell'' \<noteq> [] \<and>
   \<not> check_for_critical_symptoms ''I feel unwell'' \<and>
   detect_keys ''I feel unwell'' = [] \<and>
   stage (handle_chat_input failing_env (first_run\<lparr>user_input := Some ''I feel unwell''\<rparr>)) = Greeting \<and>
   symptoms_to_query (handle_chat_input failing_env (first_run\<lparr>user_input := Some ''I feel unwell''\<rparr>)) = [] \<and>
   messages (handle_chat_input failing_env (first_run\<lparr>user_input := Some ''I feel unwell''\<rparr>)) =
     messages (first_run\<lparr>user_input := Some ''I feel unwell''\<rparr>) @
       [\<lparr>role = Assistant, content = clarification_prompt\<rparr>]"
proof -
  have 1: "stage (first_run\<lparr>user_input := Some ''I feel unwell''\<rparr>) = Greeting"
    by (simp add: first_run_def)
  have 2: "user_input (first_run\<lparr>user_input := Some ''I feel unwell''\<rparr>) = Some ''I feel unwell''"
    by simp
  have 3: "''I feel unwell'' \<noteq> []" by simp
  have 4: "\<forall>k \<in> set CRITICAL_SYMPTOMS. \<not> (\<exists>ps ss. lower ''I feel unwell'' = ps @ k @ ss)"
    unfolding str_in_iff [symmetric] by code_simp
  have 5: "\<forall>k \<in> set symptom_keys. \<not> (\<exists>ps ss. lower ''I feel unwell'' = ps @ k @ ss)"
    unfolding str_in_iff [symmetric] by code_simp
  have 6: "\<not> check_for_critical_symptoms ''I feel unwell'' \<and> detect_keys ''I feel unwell'' = []"
    by code_simp
  from greeting_without_symptom_asks_again [OF 1 2 3 4 5, of failing_env] 1 2 3 6
  show ?thesis by blast
qed

text \<open>
  Claim C9. \<open>log_initial_symptoms\<close> replaces the record: the symptom list and the
  question queue after the call are those of the text alone, the same from whatever state
  the call starts, and every symptom in the list occurs in the lower-cased text. So after
  a clarification turn in \<open>Greeting\<close> the list and the queue are empty, whatever an
  earlier text had put there.
\<close>

theorem log_initial_symptoms_replaces:
  "initial_symptoms (log_data (log_initial_symptoms s text)) =
     initial_symptoms (log_data (log_initial_symptoms s' text)) \<and>
   symptoms_to_query (log_initial_symptoms s text) =
     symptoms_to_query (log_initial_symptoms s' text) \<and>
   (\<forall>k \<in> set (initial_symptoms (log_data (log_initial_symptoms s text))).
      \<exists>ps ss. lower text = ps @ k @ ss) \<and>
   (stage s = Greeting \<and> user_input s = Some text \<and> text \<noteq> [] \<and>
    \<not> check_for_critical_symptoms text \<and>
    (\<forall>k \<in> set symptom_keys. \<not> (\<exists>ps ss. lower text = ps @ k @ ss)) \<longrightarrow>
      initial_symptoms (log_data (handle_chat_input e s)) = [] \<and>
      symptoms_to_query (handle_chat_input e s) = [])"
proof -
  have "\<forall>k \<in> set (detect_keys text). \<exists>ps ss. lower text = ps @ k @ ss"
    by (simp add: detect_keys_def str_in_iff)
  moreover have "initial_symptoms (log_data (handle_chat_input e s)) = [] \<and>
      symptoms_to_query (handle_chat_input e s) = []"
    if "stage s = Greeting" "user_input s = Some text" "text \<noteq> []"
      "\<not> check_for_critical_symptoms text"
      "\<forall>k \<in> set symptom_keys. \<not> (\<exists>ps ss. lower text = ps @ k @ ss)"
  proof -
    from that(5) have "detect_keys text = []" by (rule detect_keys_none)
    with that(1-4) show ?thesis by (simp add: handle_chat_input_clarify)
  qed
  ultimately show ?thesis
    by (simp add: log_initial_symptoms_fields)
qed

theorem log_initial_symptoms_replaces_witness:
  "initial_symptoms (log_data stale_state) = [''cough''] \<and>
   symptoms_to_query stale_state \<noteq> [] \<and>
   stage stale_state = Greeting \<and> user_input stale_state = Some ''I feel unwell'' \<and>
   ''I feel unwell'' \<noteq> [] \<and> \<not> check_for_critical_symptoms ''I feel unwell'' \<and>
   detect_keys ''I feel unwell'' = [] \<and>
   initial_symptoms (log_data (handle_chat_input failing_env stale_state)) = [] \<and>
   symptoms_to_query (handle_chat_input failing_env stale_state) = [] \<and>
   initial_symptoms (log_data (log_initial_symptoms stale_state ''only a FEVER now'')) =
     initial_symptoms (log_data (log_initial_symptoms first_run ''only a FEVER now'')) \<and>
   initial_symptoms (log_data (log_initial_symptoms stale_state ''only a FEVER now'')) = [''fever'']"
proof -
  have 0: "initial_symptoms (log_data stale_state) = [''cough''] \<and> symptoms_to_query stale_state \<noteq> []"
    by (simp add: stale_state_def)
  have 1: "stage stale_state = Greeting \<and> user_input stale_state = Some ''I feel unwell'' \<and>
   ''I feel unwell'' \<noteq> [] \<and> \<not> check_for_critical_symptoms ''I feel unwell''"
    by code_simp
  have 2: "\<forall>k \<in> set symptom_keys. \<not> (\<exists>ps ss. lower ''I feel unwell'' = ps @ k @ ss)"
    unfolding str_in_iff [symmetric] by code_simp
  have 3: "initial_symptoms (log_data (log_initial_symptoms stale_state ''only a FEVER now'')) = [''fever'']"
    by code_simp
  note r = log_initial_symptoms_replaces [of stale_state "''I feel unwell''" _ failing_env]
  from r 1 2 have 4: "initial_symptoms (log_data (handle_chat_input failing_env stale_state)) = [] \<and>
   symptoms_to_query (handle_chat_input failing_env stale_state) = []"
    by blast
  from log_initial_symptoms_replaces [of stale_state "''only a FEVER now''" first_run]
  have 5: "initial_symptoms (log_data (log_initial_symptoms stale_state ''only a FEVER now'')) =
     initial_symptoms (log_data (log_initial_symptoms first_run ''only a FEVER now''))"
    by blast
  have 6: "detect_keys ''I feel unwell'' = []" by code_simp
  from 0 1 3 4 5 6 show ?thesis by blast
qed

section \<open>Logging an answer\<close>

lemma map_of_dict_set: "map_of (dict_set k v d) = (map_of d)(k \<mapsto> v)"
  by (induction d) (auto simp: fun_eq_iff)

lemma keys_dict_set:
  "map fst (dict_set k v d) = (if k \<in> set (map fst d) then map fst d else map fst d @ [k])"
  by (induction d) auto

lemma log_detail_unfold:
  assumes "current_question_context s = Some (symptom, qn)"
  shows "log_detail s ans =
    s\<lparr>log_data := (log_data s)\<lparr>details :=
       dict_set symptom
         ((case map_of (details (log_data s)) symptom of None \<Rightarrow> [] | Some l \<Rightarrow> l) @
            [\<lparr>question = qn, answer = ans\<rparr>])
         (details (log_data s))\<rparr>\<rparr>"
  using assms by (simp add: log_detail_def Let_def)

text \<open>
  Claim C10. With a pending question context (symptom, question), \<open>log_detail\<close> changes
  \<open>details\<close> of the log and nothing else in the state. In \<open>details\<close>, the entry of
  the symptom is its former list of records (none, if the symptom had no entry) with the
  one record of the question and the answer added at the end; every other symptom has the
  entry it had; and the keys are the former keys in their order, with the symptom added
  last if it was not among them.
\<close>

theorem log_detail_appends_one_record:
  assumes "current_question_context s = Some (symptom, qn)"
  shows "log_detail s ans = s\<lparr>log_data := (log_data s)\<lparr>details := details (log_data (log_detail s ans))\<rparr>\<rparr> \<and>
         map_of (details (log_data (log_detail s ans))) symptom =
           Some ((case map_of (details (log_data s)) symptom of None \<Rightarrow> [] | Some l \<Rightarrow> l) @
                 [\<lparr>question = qn, answer = ans\<rparr>]) \<and>
         (\<forall>k. k \<noteq> symptom \<longrightarrow>
            map_of (details (log_data (log_detail s ans))) k = map_of (details (log_data s)) k) \<and>
         map fst (details (log_data (log_detail s ans))) =
           (if symptom \<in> set (map fst (details (log_data s)))
            then map fst (details (log_data s))
            else map fst (details (log_data s)) @ [symptom])"
  unfolding log_detail_unfold [OF assms]
  by (simp add: map_of_dict_set keys_dict_set)

theorem log_detail_appends_one_record_witness:
  "current_question_context pending_state = Some (''headache'', ''Where is the pain located?'') \<and>
   log_detail pending_state ''Behind my LEFT eye'' =
     pending_state\<lparr>log_data := (log_data pending_state)\<lparr>details :=
        details (log_data (log_detail pending_state ''Behind my LEFT eye''))\<rparr>\<rparr> \<and>
   map_of (details (log_data (log_detail pending_state ''Behind my LEFT eye''))) ''headache'' =
     Some [\<lparr>question = ''On a scale of 1 to 10, how severe is it?'', answer = ''7''\<rparr>,
           \<lparr>question = ''Where is the pain located?'', answer = ''Behind my LEFT eye''\<rparr>]"
proof -
  have 1: "current_question_context pending_state = Some (''headache'', ''Where is the pain located?'')"
    by (simp add: pending_state_def)
  have 2: "map_of (details (log_data pending_state)) ''headache'' =
     Some [\<lparr>question = ''On a scale of 1 to 10, how severe is it?'', answer = ''7''\<rparr>]"
    by (simp add: pending_state_def)
  note r = log_detail_appends_one_record [OF 1, of "''Behind my LEFT eye''"]
  from r have 3: "log_detail pending_state ''Behind my LEFT eye'' =
     pending_state\<lparr>log_data := (log_data pending_state)\<lparr>details :=
        details (log_data (log_detail pending_state ''Behind my LEFT eye''))\<rparr>\<rparr>"
    by (rule conjunct1)
  from r have "map_of (details (log_data (log_detail pending_state ''Behind my LEFT eye''))) ''headache'' =
           Some ((case map_of (details (log_data pending_state)) ''headache'' of None \<Rightarrow> [] | Some l \<Rightarrow> l) @
                 [\<lparr>question = ''Where is the pain located?'', answer = ''Behind my LEFT eye''\<rparr>])"
    by blast
  with 2 have 4: "map_of (details (log_data (log_detail pending_state ''Behind my LEFT eye''))) ''headache'' =
     Some [\<lparr>question = ''On a scale of 1 to 10, how severe is it?'', answer = ''7''\<rparr>,
           \<lparr>question = ''Where is the pain located?'', answer = ''Behind my LEFT eye''\<rparr>]"
    by simp
  from 1 3 4 show ?thesis by blast
qed

section \<open>The last turn\<close>

lemma call_gemini_snd: "snd (call_gemini e s p) = s\<lparr>prompts_sent := prompts_sent s @ [p]\<rparr>"
  by (simp add: call_gemini_def Let_def split: outcome.splits response.splits)



lemma finish_session_eq:
  "finish_session e s =
     s\<lparr>stage := Done,
       prompts_sent := prompts_sent s @ [summary_prompt e (log_data s), advice_prompt e (log_data s)],
       messages := messages s @
         [\<lparr>role = Assistant, content = summary_header @ newline @
             fst (call_gemini e s (summary_prompt e (log_data s)))\<rparr>,
          \<lparr>role = Assistant, content = advice_header @ newline @
             fst (call_gemini e (s\<lparr>prompts_sent := prompts_sent s @ [summary_prompt e (log_data s)]\<rparr>)
                   (advice_prompt e (log_data s)))\<rparr>,
          \<lparr>role = Assistant, content = closing_message\<rparr>]\<rparr>"
proof -
  have c: "closing_message \<noteq> []" by (simp add: closing_message_def)
  have f: "fst (call_gemini e (s\<lparr>stage := Summary\<rparr>) p) = fst (call_gemini e s p)" for p
    by (simp add: call_gemini_def Let_def split: outcome.splits response.splits)
  have g: "fst (call_gemini e (s\<lparr>stage := Summary, prompts_sent := h\<rparr>) p) =
           fst (call_gemini e (s\<lparr>prompts_sent := h\<rparr>) p)" for p h
    by (simp add: call_gemini_def Let_def split: outcome.splits response.splits)
  show ?thesis
    using c
    by (simp add: finish_session_def generate_summary_def generate_advice_def Let_def
        split_beta call_gemini_snd respond_def say_def f g)
qed

lemma log_detail_keeps [simp]:
  "symptoms_to_query (log_detail s t) = symptoms_to_query s"
  "stage (log_detail s t) = stage s"
  "messages (log_detail s t) = messages s"
  "prompts_sent (log_detail s t) = prompts_sent s"
  by (simp_all add: log_detail_def Let_def split: option.splits)

lemma handle_chat_input_final:
  assumes "stage s = CollectingDetails" and "user_input s = Some t" and "t \<noteq> []"
    and "\<not> check_for_critical_symptoms t" and "symptoms_to_query s = []"
  shows "handle_chat_input e s = finish_session e (log_detail s t)"
  using assms by (simp add: handle_chat_input_def ask_next_question_def falsy_def)

lemma handle_chat_input_next:
  assumes "stage s = CollectingDetails" and "user_input s = Some t" and "t \<noteq> []"
    and "\<not> check_for_critical_symptoms t" and "symptoms_to_query s = (symptom, qn) # rest"
    and "qn \<noteq> []"
  shows "handle_chat_input e s =
     (log_detail s t)\<lparr>symptoms_to_query := rest,
        current_question_context := Some (symptom, qn),
        messages := messages s @ [\<lparr>role = Assistant, content = qn\<rparr>]\<rparr>"
  using assms
  by (simp add: handle_chat_input_def ask_next_question_def falsy_def respond_def say_def)





text \<open>
  Claim C6, as stated, fails. The turn that takes the last question off the queue asks
  that question and stays in \<open>CollectingDetails\<close>: after the greeting "I have a headache"
  one question is left in the queue; the turn with the answer "7" empties the queue, sends
  nothing to the language model and does not reach \<open>Done\<close>. And the turn after it, which
  finds the queue empty, makes no summary when its text triggers the safety filter: with
  the answer "a severe pain behind my left eye" it sends nothing to the language model
  and appends the escalation message only.
\<close>

theorem last_question_turn_counterexample:
  "stage asking_state = CollectingDetails \<and>
   symptoms_to_query asking_state = [(''headache'', ''Where is the pain located?'')] \<and>
   symptoms_to_query (script_run failing_env asking_state ''7'') = [] \<and>
   stage (script_run failing_env asking_state ''7'') = CollectingDetails \<and>
   stage (script_run failing_env asking_state ''7'') \<noteq> Done \<and>
   prompts_sent (script_run failing_env asking_state ''7'') = [] \<and>
   stage critical_answer_state = CollectingDetails \<and>
   symptoms_to_query critical_answer_state = [] \<and>
   stage (handle_chat_input failing_env critical_answer_state) = Done \<and>
   prompts_sent (handle_chat_input failing_env critical_answer_state) = [] \<and>
   map content (drop (length (messages critical_answer_state))
       (messages (handle_chat_input failing_env critical_answer_state))) =
     [get_critical_symptom_response]"
  by code_simp

text \<open>
  Claim C6, amended. Take a turn in stage \<open>CollectingDetails\<close> with a non-empty text.
  If it finds the queue empty (it is the turn after the one that took the last question
  off the queue, and brings the answer to that question), it reaches \<open>Done\<close> within the
  turn. If moreover its text does not trigger the safety filter, it sends the summary
  prompt and then the advice prompt, and appends three messages: the summary under its
  header, the advice under its header, and the closing message, in this order. If its
  text triggers the safety filter, it reaches \<open>Done\<close> as well, sends nothing to the
  language model and appends the escalation message only. A turn that finds a question
  in the queue (a non-empty one, as every question of the catalog is) and whose text does
  not trigger the safety filter asks that question, sends nothing to the language model
  and stays in \<open>CollectingDetails\<close>; this is so also when the question is the last one.
\<close>

theorem empty_queue_turn_summarises:
  assumes "stage s = CollectingDetails" and "user_input s = Some t" and "t \<noteq> []"
  shows "(symptoms_to_query s = [] \<longrightarrow> stage (handle_chat_input e s) = Done) \<and>
    (symptoms_to_query s = [] \<and> \<not> check_for_critical_symptoms t \<longrightarrow>
      (let s1 = (log_detail s t)\<lparr>stage := Summary\<rparr>;
           summary = fst (generate_summary e s1);
           advice = fst (generate_advice e (snd (generate_summary e s1)))
       in prompts_sent (handle_chat_input e s) =
            prompts_sent s @ [summary_prompt e (log_data s1), advice_prompt e (log_data s1)] \<and>
          messages (handle_chat_input e s) =
            messages s @
              [\<lparr>role = Assistant, content = summary_header @ newline @ summary\<rparr>,
               \<lparr>role = Assistant, content = advice_header @ newline @ advice\<rparr>,
               \<lparr>role = Assistant, content = closing_message\<rparr>])) \<and>
    (check_for_critical_symptoms t \<longrightarrow>
       stage (handle_chat_input e s) = Done \<and>
       prompts_sent (handle_chat_input e s) = prompts_sent s \<and>
       messages (handle_chat_input e s) =
         messages s @ [\<lparr>role = Assistant, content = get_critical_symptom_response\<rparr>]) \<and>
    (\<forall>symptom qn rest.
       symptoms_to_query s = (symptom, qn) # rest \<and> qn \<noteq> [] \<and>
       \<not> check_for_critical_symptoms t \<longrightarrow>
         stage (handle_chat_input e s) = CollectingDetails \<and>
         symptoms_to_query (handle_chat_input e s) = rest \<and>
         prompts_sent (handle_chat_input e s) = prompts_sent s \<and>
         messages (handle_chat_input e s) = messages s @ [\<lparr>role = Assistant, content = qn\<rparr>])"
proof -
  have crit: "handle_chat_input e s = (say get_critical_symptom_response s)\<lparr>stage := Done\<rparr>"
    if "check_for_critical_symptoms t"
    using assms(2) that by (rule handle_chat_input_critical)
  have fin: "handle_chat_input e s = finish_session e (log_detail s t)"
    if "symptoms_to_query s = []" "\<not> check_for_critical_symptoms t"
    using assms that(2,1) by (rule handle_chat_input_final)
  have f: "fst (call_gemini e (x\<lparr>stage := Summary\<rparr>) p) = fst (call_gemini e x p)" for p x
    by (simp add: call_gemini_def Let_def split: outcome.splits response.splits)
  have g: "fst (call_gemini e (x\<lparr>stage := Summary, prompts_sent := h\<rparr>) p) =
           fst (call_gemini e (x\<lparr>prompts_sent := h\<rparr>) p)" for p h x
    by (simp add: call_gemini_def Let_def split: outcome.splits response.splits)
  have 1: "stage (handle_chat_input e s) = Done" if q: "symptoms_to_query s = []"
  proof (cases "check_for_critical_symptoms t")
    case True
    then show ?thesis by (simp add: crit)
  next
    case False
    with q show ?thesis by (simp add: fin finish_session_eq)
  qed
  have 2: "let s1 = (log_detail s t)\<lparr>stage := Summary\<rparr>;
           summary = fst (generate_summary e s1);
           advice = fst (generate_advice e (snd (generate_summary e s1)))
       in prompts_sent (handle_chat_input e s) =
            prompts_sent s @ [summary_prompt e (log_data s1), advice_prompt e (log_data s1)] \<and>
          messages (handle_chat_input e s) =
            messages s @
              [\<lparr>role = Assistant, content = summary_header @ newline @ summary\<rparr>,
               \<lparr>role = Assistant, content = advice_header @ newline @ advice\<rparr>,
               \<lparr>role = Assistant, content = closing_message\<rparr>]"
    if "symptoms_to_query s = []" "\<not> check_for_critical_symptoms t"
    unfolding fin [OF that] finish_session_eq
    by (simp add: Let_def generate_summary_def generate_advice_def call_gemini_snd f g)
  have 3: "stage (handle_chat_input e s) = Done \<and>
       prompts_sent (handle_chat_input e s) = prompts_sent s \<and>
       messages (handle_chat_input e s) =
         messages s @ [\<lparr>role = Assistant, content = get_critical_symptom_response\<rparr>]"
    if "check_for_critical_symptoms t"
    unfolding crit [OF that] by (simp add: say_def)
  have 4: "stage (handle_chat_input e s) = CollectingDetails \<and>
         symptoms_to_query (handle_chat_input e s) = rest \<and>
         prompts_sent (handle_chat_input e s) = prompts_sent s \<and>
         messages (handle_chat_input e s) = messages s @ [\<lparr>role = Assistant, content = qn\<rparr>]"
    if "symptoms_to_query s = (symptom, qn) # rest" "qn \<noteq> []" "\<not> check_for_critical_symptoms t"
    for symptom qn rest
  proof -
    have "handle_chat_input e s =
       (log_detail s t)\<lparr>symptoms_to_query := rest,
          current_question_context := Some (symptom, qn),
          messages := messages s @ [\<lparr>role = Assistant, content = qn\<rparr>]\<rparr>"
      using assms that(3,1,2) by (rule handle_chat_input_next)
    then show ?thesis using assms(1) by simp
  qed
  from 1 2 3 4 show ?thesis by blast
qed

theorem empty_queue_turn_summarises_witness:
  "stage answering_state = CollectingDetails \<and>
   user_input answering_state = Some ''Behind my left eye'' \<and>
   ''Behind my left eye'' \<noteq> [] \<and>
   \<not> check_for_critical_symptoms ''Behind my left eye'' \<and>
   symptoms_to_query answering_state = [] \<and>
   stage (handle_chat_input failing_env answering_state) = Done \<and>
   prompts_sent (handle_chat_input failing_env answering_state) =
     prompts_sent answering_state @
       [summary_prompt failing_env (log_data ((log_detail answering_state ''Behind my left eye'')\<lparr>stage := Summary\<rparr>)),
        advice_prompt failing_env (log_data ((log_detail answering_state ''Behind my left eye'')\<lparr>stage := Summary\<rparr>))] \<and>
   map content (drop (length (messages answering_state)) (messages (handle_chat_input failing_env answering_state))) =
     [summary_header @ newline @ fallback_error, advice_header @ newline @ fallback_no_text, closing_message] \<and>
   stage critical_answer_state = CollectingDetails \<and>
   user_input critical_answer_state = Some ''a severe pain behind my left eye'' \<and>
   check_for_critical_symptoms ''a severe pain behind my left eye'' \<and>
   symptoms_to_query critical_answer_state = [] \<and>
   stage (handle_chat_input failing_env critical_answer_state) = Done \<and>
   prompts_sent (handle_chat_input failing_env critical_answer_state) = prompts_sent critical_answer_state \<and>
   messages (handle_chat_input failing_env critical_answer_state) =
     messages critical_answer_state @ [\<lparr>role = Assistant, content = get_critical_symptom_response\<rparr>] \<and>
   symptoms_to_query (asking_state\<lparr>user_input := Some ''7''\<rparr>) =
     (''headache'', ''Where is the pain located?'') # [] \<and>
   ''Where is the pain located?'' \<noteq> [] \<and>
   \<not> check_for_critical_symptoms ''7'' \<and>
   stage (handle_chat_input failing_env (asking_state\<lparr>user_input := Some ''7''\<rparr>)) = CollectingDetails \<and>
   prompts_sent (handle_chat_input failing_env (asking_state\<lparr>user_input := Some ''7''\<rparr>)) =
     prompts_sent (asking_state\<lparr>user_input := Some ''7''\<rparr>) \<and>
   messages (handle_chat_input failing_env (asking_state\<lparr>user_input := Some ''7''\<rparr>)) =
     messages (asking_state\<lparr>user_input := Some ''7''\<rparr>) @
       [\<lparr>role = Assistant, content = ''Where is the pain located?''\<rparr>]"
proof -
  have 1: "stage answering_state = CollectingDetails" by code_simp
  have 2: "user_input answering_state = Some ''Behind my left eye''"
    by (simp add: answering_state_def)
  have 3: "''Behind my left eye'' \<noteq> []" by simp
  have 4: "\<not> check_for_critical_symptoms ''Behind my left eye''" by code_simp
  have 5: "symptoms_to_query answering_state = []" by code_simp
  have 6: "prompts_sent answering_state = []" by code_simp
  note r = empty_queue_turn_summarises [OF 1 2 3, of failing_env, unfolded Let_def]
  from r 4 5 have 7: "stage (handle_chat_input failing_env answering_state) = Done \<and>
   prompts_sent (handle_chat_input failing_env answering_state) =
     prompts_sent answering_state @
       [summary_prompt failing_env (log_data ((log_detail answering_state ''Behind my left eye'')\<lparr>stage := Summary\<rparr>)),
        advice_prompt failing_env (log_data ((log_detail answering_state ''Behind my left eye'')\<lparr>stage := Summary\<rparr>))]"
    by blast
  from r 4 5 have "messages (handle_chat_input failing_env answering_state) =
     messages answering_state @
       [\<lparr>role = Assistant, content = summary_header @ newline @
           fst (generate_summary failing_env ((log_detail answering_state ''Behind my left eye'')\<lparr>stage := Summary\<rparr>))\<rparr>,
        \<lparr>role = Assistant, content = advice_header @ newline @
           fst (generate_advice failing_env (snd (generate_summary failing_env
                 ((log_detail answering_state ''Behind my left eye'')\<lparr>stage := Summary\<rparr>))))\<rparr>,
        \<lparr>role = Assistant, content = closing_message\<rparr>]"
    by blast
  then have 8: "map content (drop (length (messages answering_state)) (messages (handle_chat_input failing_env answering_state))) =
     [summary_header @ newline @ fallback_error, advice_header @ newline @ fallback_no_text, closing_message]"
    by (simp add: generate_summary_def generate_advice_def call_gemini_def Let_def 6 failing_env_def)
  have c1: "stage critical_answer_state = CollectingDetails" by code_simp
  have c2: "user_input critical_answer_state = Some ''a severe pain behind my left eye''"
    by (simp add: critical_answer_state_def)
  have c3: "''a severe pain behind my left eye'' \<noteq> []" by simp
  have c4: "check_for_critical_symptoms ''a severe pain behind my left eye''" by code_simp
  have c5: "symptoms_to_query critical_answer_state = []" by code_simp
  from empty_queue_turn_summarises [OF c1 c2 c3, of failing_env] c4
  have c6: "stage (handle_chat_input failing_env critical_answer_state) = Done \<and>
   prompts_sent (handle_chat_input failing_env critical_answer_state) = prompts_sent critical_answer_state \<and>
   messages (handle_chat_input failing_env critical_answer_state) =
     messages critical_answer_state @ [\<lparr>role = Assistant, content = get_critical_symptom_response\<rparr>]"
    by blast
  have a1: "stage (asking_state\<lparr>user_input := Some ''7''\<rparr>) = CollectingDetails" by code_simp
  have a2: "user_input (asking_state\<lparr>user_input := Some ''7''\<rparr>) = Some ''7''" by simp
  have a3: "''7'' \<noteq> []" by simp
  have a4: "\<not> check_for_critical_symptoms ''7''" by code_simp
  have a5: "symptoms_to_query (asking_state\<lparr>user_input := Some ''7''\<rparr>) =
     (''headache'', ''Where is the pain located?'') # [] \<and> ''Where is the pain located?'' \<noteq> []"
    by code_simp
  from empty_queue_turn_summarises [OF a1 a2 a3, of failing_env] a4 a5
  have 9: "stage (handle_chat_input failing_env (asking_state\<lparr>user_input := Some ''7''\<rparr>)) = CollectingDetails \<and>
   prompts_sent (handle_chat_input failing_env (asking_state\<lparr>user_input := Some ''7''\<rparr>)) =
     prompts_sent (asking_state\<lparr>user_input := Some ''7''\<rparr>) \<and>
   messages (handle_chat_input failing_env (asking_state\<lparr>user_input := Some ''7''\<rparr>)) =
     messages (asking_state\<lparr>user_input := Some ''7''\<rparr>) @
       [\<lparr>role = Assistant, content = ''Where is the pain located?''\<rparr>]"
    by blast
  from 1 2 3 4 5 7 8 c1 c2 c4 c5 c6 a4 a5 9 show ?thesis by blast
qed

section \<open>The advice request\<close>

text \<open>
  Claim C7. The prompt of \<open>generate_advice\<close> is a function of \<open>initial_symptoms\<close> alone:
  two agents with the same initial symptom list send the same advice prompt, whatever
  their \<open>details\<close> hold, and replacing \<open>details\<close> in a log does not change the prompt.
\<close>

theorem advice_prompt_ignores_details:
  assumes "initial_symptoms (log_data s1) = initial_symptoms (log_data s2)"
  shows "advice_prompt e (log_data s1) = advice_prompt e (log_data s2) \<and>
         prompts_sent (snd (generate_advice e s1)) = prompts_sent s1 @ [advice_prompt e (log_data s2)] \<and>
         prompts_sent (snd (generate_advice e s2)) = prompts_sent s2 @ [advice_prompt e (log_data s2)] \<and>
         advice_prompt e ((log_data s1)\<lparr>details := d\<rparr>) = advice_prompt e (log_data s1)"
  using assms by (simp add: advice_prompt_def generate_advice_def call_gemini_snd)

theorem advice_prompt_ignores_details_witness:
  "initial_symptoms (log_data pending_state) = initial_symptoms (log_data other_answer_state) \<and>
   details (log_data pending_state) \<noteq> details (log_data other_answer_state) \<and>
   advice_prompt failing_env (log_data pending_state) = advice_prompt failing_env (log_data other_answer_state) \<and>
   prompts_sent (snd (generate_advice failing_env pending_state)) =
     prompts_sent pending_state @ [advice_prompt failing_env (log_data other_answer_state)]"
proof -
  have 1: "initial_symptoms (log_data pending_state) = initial_symptoms (log_data other_answer_state)"
    by (simp add: pending_state_def other_answer_state_def)
  have 2: "details (log_data pending_state) \<noteq> details (log_data other_answer_state)"
    by (simp add: pending_state_def other_answer_state_def)
  from advice_prompt_ignores_details [OF 1, of failing_env] 1 2 show ?thesis by blast
qed

section \<open>Answers across runs of the script\<close>

lemma handle_chat_input_without_context:
  assumes "current_question_context s = None"
  shows "details (log_data (handle_chat_input e s)) = details (log_data s)"
  using assms
  by (simp add: handle_chat_input_def log_detail_def log_initial_symptoms_def
      ask_next_question_def finish_session_eq respond_def say_def Let_def
      split: option.splits stage.splits list.splits prod.splits)

lemma script_run_keeps_details:
  "details (log_data (script_run e s prompt)) = details (log_data s)"
  by (simp add: script_run_def new_agent_def Let_def handle_chat_input_without_context)

lemma session_run_keeps_details:
  "details (log_data (session_run e s prompts)) = details (log_data s)"
  unfolding session_run_def
  by (induction prompts arbitrary: s) (simp_all add: script_run_keeps_details)

lemma session_details_always_empty:
  "details (log_data (session_run e first_run prompts)) = []"
  by (simp add: session_run_keeps_details first_run_def)

text \<open>
  Claim C5 does not hold of the program as it runs. In the session "I have a headache",
  "7", "Behind my LEFT eye" both answers are given in stage \<open>CollectingDetails\<close>, each to
  the question asked last, and the session ends in \<open>Done\<close> with \<open>details\<close> empty: every
  run of the script makes a new agent, whose \<open>current_question_context\<close> is \<open>None\<close>, so
  \<open>log_detail\<close> always takes its skipping branch (\<open>session_details_always_empty\<close> shows
  this for every session). The same three texts given to the handler on one agent are
  logged as the claim says, with the answers in their original case.
\<close>

theorem answers_lost_between_script_runs:
  "stage (session_run failing_env first_run [''I have a headache'']) = CollectingDetails \<and>
   stage (session_run failing_env first_run [''I have a headache'', ''7'']) = CollectingDetails \<and>
   stage (session_run failing_env first_run [''I have a headache'', ''7'', ''Behind my LEFT eye'']) = Done \<and>
   details (log_data (session_run failing_env first_run [''I have a headache'', ''7''])) = [] \<and>
   details (log_data (session_run failing_env first_run [''I have a headache'', ''7'', ''Behind my LEFT eye''])) = [] \<and>
   details (log_data (handle_inputs failing_env first_run [''I have a headache'', ''7'', ''Behind my LEFT eye''])) =
     [(''headache'',
       [\<lparr>question = ''On a scale of 1 to 10, how severe is it?'', answer = ''7''\<rparr>,
        \<lparr>question = ''Where is the pain located?'', answer = ''Behind my LEFT eye''\<rparr>])]"
  by code_simp

end
